theory Spec2Isabelle
  imports Complex_Main
begin

section \<open>IQ-MOS: the physics helper functions of app.py\<close>

text \<open>
  The program evaluates five closed-form formulas on Python floats and numpy
  float64 values. Both are IEEE binary64 numbers; they differ in what happens
  when an operation has no finite result: Python raises on a zero divisor and on
  an overflowing power, numpy returns an infinity or a NaN.

  A float is modelled as a real number, an infinity or a NaN. Every operation
  computes the exact real result and replaces it by an infinity once it leaves the
  binary64 range, so that overflow, infinities, NaN and the exceptions are part of
  the model. Rounding to 53 bits, gradual underflow and the sign of zero are not:
  a finite result is the exact one, where the code returns the binary64 number
  nearest to it, and the zero is the positive zero. The properties below are
  therefore stated where rounding stays small against the result (no cancelling
  sums), or in a form that rounding preserves (a weak order).

  Scientific literals are written out: \<open>3.45e-11\<close> is \<open>3.45 / 10 ^ 11\<close>,
  \<open>5e-9\<close> is \<open>5 / 10 ^ 9\<close>, \<open>1e9\<close> is \<open>10 ^ 9\<close> and \<open>1e6\<close> is \<open>10 ^ 6\<close>.
\<close>

subsection \<open>Binary64 values and their arithmetic\<close>

datatype f64 = Fin real | PInf | NInf | NaN

text \<open>
  The largest binary64 number is \<open>2 ^ 1024 - 2 ^ 971\<close>; a result whose magnitude
  reaches \<open>2 ^ 1024 - 2 ^ 970\<close> rounds to an infinity.
\<close>

definition in_range :: "real \<Rightarrow> bool" where
  "in_range x = (\<bar>x\<bar> < 2 ^ 1024 - 2 ^ 970)"

definition to_f64 :: "real \<Rightarrow> f64" where
  "to_f64 x = (if in_range x then Fin x else if 0 < x then PInf else NInf)"

fun f_neg :: "f64 \<Rightarrow> f64" where
  "f_neg (Fin x) = Fin (- x)"
| "f_neg PInf = NInf"
| "f_neg NInf = PInf"
| "f_neg NaN = NaN"

fun f_add :: "f64 \<Rightarrow> f64 \<Rightarrow> f64" where
  "f_add (Fin x) (Fin y) = to_f64 (x + y)"
| "f_add NaN b = NaN"
| "f_add a NaN = NaN"
| "f_add PInf NInf = NaN"
| "f_add NInf PInf = NaN"
| "f_add PInf b = PInf"
| "f_add NInf b = NInf"
| "f_add a PInf = PInf"
| "f_add a NInf = NInf"


fun f_mul :: "f64 \<Rightarrow> f64 \<Rightarrow> f64" where
  "f_mul (Fin x) (Fin y) = to_f64 (x * y)"
| "f_mul NaN b = NaN"
| "f_mul a NaN = NaN"
| "f_mul PInf (Fin y) = (if y = 0 then NaN else if 0 < y then PInf else NInf)"
| "f_mul NInf (Fin y) = (if y = 0 then NaN else if 0 < y then NInf else PInf)"
| "f_mul (Fin x) PInf = (if x = 0 then NaN else if 0 < x then PInf else NInf)"
| "f_mul (Fin x) NInf = (if x = 0 then NaN else if 0 < x then NInf else PInf)"
| "f_mul PInf PInf = PInf"
| "f_mul NInf NInf = PInf"
| "f_mul PInf NInf = NInf"
| "f_mul NInf PInf = NInf"

text \<open>
  IEEE division: a zero divisor gives an infinity with the sign of the dividend,
  and NaN for \<open>0 / 0\<close>.
\<close>

fun f_div :: "f64 \<Rightarrow> f64 \<Rightarrow> f64" where
  "f_div (Fin x) (Fin y) =
     (if y = 0 then (if x = 0 then NaN else if 0 < x then PInf else NInf)
      else to_f64 (x / y))"
| "f_div NaN b = NaN"
| "f_div a NaN = NaN"
| "f_div (Fin x) b = Fin 0"
| "f_div PInf (Fin y) = (if 0 \<le> y then PInf else NInf)"
| "f_div NInf (Fin y) = (if 0 \<le> y then NInf else PInf)"
| "f_div a b = NaN"


fun f_exp :: "f64 \<Rightarrow> f64" where
  "f_exp (Fin x) = to_f64 (exp x)"
| "f_exp PInf = PInf"
| "f_exp NInf = Fin 0"
| "f_exp NaN = NaN"

subsection \<open>Python floats and numpy float64 values\<close>

text \<open>
  An argument is a Python float (\<open>Py\<close>) or a numpy float64 (\<open>Np\<close>). An operation
  with a numpy operand is carried out by numpy and its result is a numpy value;
  an operation on two Python floats is Python's. The literals of the source are
  Python floats.
\<close>

datatype num = Py f64 | Np f64

datatype py_error = ZeroDivisionError | OverflowError | TypeError

fun val :: "num \<Rightarrow> f64" where
  "val (Py v) = v"
| "val (Np v) = v"

fun is_np :: "num \<Rightarrow> bool" where
  "is_np (Py v) = False"
| "is_np (Np v) = True"

definition mk :: "bool \<Rightarrow> f64 \<Rightarrow> num" where
  "mk np v = (if np then Np v else Py v)"

definition n_neg :: "num \<Rightarrow> num" where
  "n_neg a = mk (is_np a) (f_neg (val a))"

definition n_add :: "num \<Rightarrow> num \<Rightarrow> num" where
  "n_add a b = mk (is_np a \<or> is_np b) (f_add (val a) (val b))"


definition n_mul :: "num \<Rightarrow> num \<Rightarrow> num" where
  "n_mul a b = mk (is_np a \<or> is_np b) (f_mul (val a) (val b))"


text \<open>
  \<open>a / b\<close>: Python raises \<open>ZeroDivisionError\<close> on a zero divisor and otherwise
  divides as IEEE does (an overflowing quotient is an infinity); numpy never raises.
\<close>

definition n_div :: "num \<Rightarrow> num \<Rightarrow> py_error + num" where
  "n_div a b =
     (if is_np a \<or> is_np b then Inr (Np (f_div (val a) (val b)))
      else if val b = Fin 0 then Inl ZeroDivisionError
      else Inr (Py (f_div (val a) (val b))))"


definition np_exp :: "num \<Rightarrow> num" where
  "np_exp a = Np (f_exp (val a))"

text \<open>
  \<open>np.sqrt\<close> of a Python integer: numpy converts the integer to a 64-bit integer
  array first, which fails with \<open>TypeError\<close> outside \<open>[- 2 ^ 63, 2 ^ 64)\<close>; the root
  of a negative number is NaN.
\<close>

definition np_sqrt_int :: "int \<Rightarrow> py_error + num" where
  "np_sqrt_int s =
     (if s < - (2 ^ 63) \<or> 2 ^ 64 \<le> s then Inl TypeError
      else if s < 0 then Inr (Np NaN)
      else Inr (Np (Fin (sqrt (real_of_int s)))))"

text \<open>What a call returns, without the kind of float.\<close>

fun result_val :: "py_error + num \<Rightarrow> py_error + f64" where
  "result_val (Inl e) = Inl e"
| "result_val (Inr r) = Inr (val r)"

subsection \<open>mosfet\_iv\<close>



subsection \<open>dg\_threshold\<close>

text \<open>
  \<^verbatim>\<open>
  def dg_threshold(thickness, tox):
      return 0.2 + 0.5 * np.exp(-thickness / (5e-9)) + (tox * 1e9) * 0.01
  \<close>
  \<open>np.exp\<close> returns a numpy float64 whatever its argument is.
\<close>

definition dg_threshold :: "num \<Rightarrow> num \<Rightarrow> py_error + num" where
  "dg_threshold thickness tox =
     (case n_div (n_neg thickness) (Py (Fin (5 / 10 ^ 9))) of
        Inl e \<Rightarrow> Inl e
      | Inr q \<Rightarrow>
          Inr (n_add (n_add (Py (Fin 0.2)) (n_mul (Py (Fin 0.5)) (np_exp q)))
                     (n_mul (n_mul tox (Py (Fin (10 ^ 9)))) (Py (Fin 0.01)))))"

subsection \<open>cnt\_bandgap and the classification of the CNT mode\<close>

text \<open>
  \<^verbatim>\<open>
  def cnt_bandgap(n, m):
      d = 0.0783 * np.sqrt(n**2 + m**2 + n*m)
      Eg = 0.82 / d
      return d, Eg
  \<close>
  \<open>n\<close> and \<open>m\<close> are Python integers, so the sum under the root is exact.
  \<open>np.sqrt\<close> returns a numpy float64; \<open>d\<close> is therefore one, and \<open>0.82 / d\<close> is
  numpy's division.
\<close>

definition cnt_bandgap :: "int \<Rightarrow> int \<Rightarrow> py_error + (num \<times> num)" where
  "cnt_bandgap n m =
     (case np_sqrt_int (n\<^sup>2 + m\<^sup>2 + n * m) of
        Inl e \<Rightarrow> Inl e
      | Inr r \<Rightarrow>
          (let d = n_mul (Py (Fin 0.0783)) r in
           case n_div (Py (Fin 0.82)) d of
             Inl e \<Rightarrow> Inl e
           | Inr Eg \<Rightarrow> Inr (d, Eg)))"

text \<open>
  The CNT mode of the page then reports the class of the nanotube:
  \<^verbatim>\<open>
      if abs((n - m) % 3) == 0:
          st.warning("This CNT is metallic!")
      else:
          st.success("This CNT is semiconducting.")
  \<close>
  Python's \<open>%\<close> with a positive divisor is the floored remainder, which is
  \<open>mod\<close> on \<open>int\<close>.
\<close>

datatype cnt_class = Metallic | Semiconducting

definition cnt_classification :: "int \<Rightarrow> int \<Rightarrow> cnt_class" where
  "cnt_classification n m =
     (if \<bar>(n - m) mod 3\<bar> = 0 then Metallic else Semiconducting)"

subsection \<open>mobility\_degradation\<close>

text \<open>
  \<^verbatim>\<open>
  def mobility_degradation(Efield, mu0):
      return mu0 / (1 + (Efield / 1e6))
  \<close>
  The page passes \<open>Efield\<close> as a numpy array (\<open>np.linspace(1e4, 1e7, 200)\<close>) and
  \<open>mu0\<close> as a Python float; numpy then works element by element, and the
  definition is what happens to one element. Called on two Python floats the
  same expression is Python's.
\<close>

definition mobility_degradation :: "num \<Rightarrow> num \<Rightarrow> py_error + num" where
  "mobility_degradation Efield mu0 =
     (case n_div Efield (Py (Fin (10 ^ 6))) of
        Inl e \<Rightarrow> Inl e
      | Inr q \<Rightarrow> n_div mu0 (n_add (Py (Fin 1)) q))"

subsection \<open>The radiation mode\<close>

text \<open>
  \<^verbatim>\<open>
      dose = st.slider("Total Ionizing Dose (krad)", 0.0, 500.0, 50.0)
      shift = 0.001 * dose
  \<close>
  The page computes the shift inline; \<open>radiation_shift\<close> is that expression as a
  function of the dose.
\<close>

definition radiation_shift :: "real \<Rightarrow> real" where
  "radiation_shift dose = 0.001 * dose"

section \<open>Properties\<close>

subsection \<open>Helper facts\<close>



lemma to_f64_in_range: "in_range x \<Longrightarrow> to_f64 x = Fin x"
  by (simp add: to_f64_def)

lemma in_range_half: "in_range x \<Longrightarrow> in_range (5 / 10 * x)"
  by (simp add: in_range_def abs_mult)










subsection \<open>mosfet\_iv: the operating regions\<close>




subsection \<open>mosfet\_iv: division by zero\<close>



subsection \<open>mosfet\_iv: the triode/saturation boundary\<close>







subsection \<open>cnt\_bandgap: helper facts\<close>

lemma cnt_quadratic_pos:
  assumes "n \<noteq> 0 \<or> m \<noteq> 0"
  shows "0 < n\<^sup>2 + m\<^sup>2 + n * (m::int)"
proof -
  define s where "s = n\<^sup>2 + m\<^sup>2 + n * m"
  define p where "p = (n + m)\<^sup>2"
  define q where "q = n\<^sup>2 + m\<^sup>2"
  have twice: "2 * s = p + q"
    unfolding s_def p_def q_def by (simp add: power2_eq_square algebra_simps)
  have "0 < q"
    unfolding q_def using assms by (simp add: sum_power2_gt_zero_iff)
  moreover have "0 \<le> p"
    unfolding p_def by simp
  ultimately have "0 < s"
    using twice by linarith
  then show ?thesis
    by (simp add: s_def)
qed

lemma cnt_from_root:
  assumes "1 \<le> r" and "r < 2 ^ 32"
  shows "in_range (0.0783 * r)" and "0.0783 * r \<noteq> 0" and "in_range (0.82 / (0.0783 * r))"
proof -
  show "in_range (0.0783 * r)"
    using assms by (simp add: in_range_def abs_mult)
  show "0.0783 * r \<noteq> 0"
    using assms by simp
  have "0.82 / (0.0783 * r) \<le> 0.82 / (0.0783 * 1)"
    using assms by (intro divide_left_mono) simp_all
  moreover have "0 \<le> 0.82 / (0.0783 * r)"
    using assms by simp
  ultimately show "in_range (0.82 / (0.0783 * r))"
    by (simp add: in_range_def)
qed

lemma cnt_bandgap_accepted:
  assumes "n \<noteq> 0 \<or> m \<noteq> 0" and "n\<^sup>2 + m\<^sup>2 + n * m < 2 ^ 64"
  shows "cnt_bandgap n m =
           Inr (Np (Fin (0.0783 * sqrt (real_of_int (n\<^sup>2 + m\<^sup>2 + n * m)))),
                Np (Fin (0.82 / (0.0783 * sqrt (real_of_int (n\<^sup>2 + m\<^sup>2 + n * m))))))"
proof -
  define s where "s = n\<^sup>2 + m\<^sup>2 + n * m"
  define r where "r = sqrt (real_of_int s)"
  have pos: "1 \<le> s"
    using cnt_quadratic_pos [OF assms(1)] by (simp add: s_def)
  have small: "s < 2 ^ 64"
    using assms(2) by (simp add: s_def)
  have below: "real_of_int s < (2 ^ 32)\<^sup>2"
    using small by (simp add: of_int_less_numeral_power_cancel_iff)
  have upper: "r < 2 ^ 32"
    unfolding r_def
  proof (rule real_less_lsqrt)
    show "(0::real) \<le> 2 ^ 32" by simp
    show "real_of_int s < (2 ^ 32)\<^sup>2" by (rule below)
  qed
  have "1 \<le> real_of_int s"
    using pos by simp
  then have lower: "1 \<le> r"
    unfolding r_def by simp
  have root: "np_sqrt_int s = Inr (Np (Fin r))"
    using pos small by (simp add: np_sqrt_int_def r_def)
  have "cnt_bandgap n m = Inr (Np (Fin (0.0783 * r)), Np (Fin (0.82 / (0.0783 * r))))"
    using cnt_from_root [OF lower upper] root
    by (simp add: cnt_bandgap_def s_def [symmetric] n_mul_def n_div_def mk_def Let_def
        to_f64_in_range)
  then show ?thesis
    by (simp only: r_def s_def)
qed

lemma cnt_bandgap_origin: "cnt_bandgap 0 0 = Inr (Np (Fin 0), Np PInf)"
  by (simp add: cnt_bandgap_def np_sqrt_int_def n_mul_def n_div_def mk_def Let_def
      to_f64_def in_range_def)

lemma cnt_bandgap_rejected:
  "2 ^ 64 \<le> n\<^sup>2 + m\<^sup>2 + n * m \<Longrightarrow> cnt_bandgap n m = Inl TypeError"
  by (simp add: cnt_bandgap_def np_sqrt_int_def)

lemma cnt_bandgap_no_zero_division: "cnt_bandgap n m \<noteq> Inl ZeroDivisionError"
  by (auto simp add: cnt_bandgap_def np_sqrt_int_def n_mul_def n_div_def mk_def Let_def
      split: if_splits)

lemma sqrt_300_bounds: "17.32 < sqrt 300" "sqrt 300 < 17.321"
  by (rule real_less_rsqrt, simp add: power2_eq_square)
     (rule real_less_lsqrt, simp_all add: power2_eq_square)

subsection \<open>cnt\_bandgap: the zero diameter\<close>

text \<open>
  C3, as stated: \<open>cnt_bandgap\<close> guards the case \<open>d = 0\<close>, so that at \<open>n = m = 0\<close>
  it returns a domain error or a well-defined value instead of dividing by zero.
  The function has no guard. At \<open>n = m = 0\<close> the diameter is 0, the division
  \<open>0.82 / d\<close> is carried out by numpy with the divisor 0, and what comes back is
  the pair of 0 and positive infinity.
\<close>

theorem cnt_bandgap_origin_unguarded:
  "cnt_bandgap 0 0 = Inr (Np (Fin 0), Np (f_div (Fin 0.82) (Fin 0)))
   \<and> cnt_bandgap 0 0 = Inr (Np (Fin 0), Np PInf)"
  by (simp add: cnt_bandgap_origin)

text \<open>
  C3, amended: \<open>cnt_bandgap\<close> does not guard the division and never reports a
  division by zero. At \<open>n = m = 0\<close>, the one pair of diameter zero, the unguarded
  division yields positive infinity, not an error; at every other pair of integers
  that \<open>np.sqrt\<close> accepts (\<open>n^2 + m^2 + n * m < 2^64\<close>) the diameter is positive and
  the bandgap is the finite number \<open>0.82 / d\<close>.
\<close>

theorem cnt_bandgap_division:
  "cnt_bandgap n m \<noteq> Inl ZeroDivisionError
   \<and> (n = 0 \<and> m = 0 \<longrightarrow> cnt_bandgap n m = Inr (Np (Fin 0), Np PInf))
   \<and> ((n \<noteq> 0 \<or> m \<noteq> 0) \<and> n\<^sup>2 + m\<^sup>2 + n * m < 2 ^ 64 \<longrightarrow>
        0 < 0.0783 * sqrt (real_of_int (n\<^sup>2 + m\<^sup>2 + n * m))
        \<and> cnt_bandgap n m =
            Inr (Np (Fin (0.0783 * sqrt (real_of_int (n\<^sup>2 + m\<^sup>2 + n * m)))),
                 Np (Fin (0.82 / (0.0783 * sqrt (real_of_int (n\<^sup>2 + m\<^sup>2 + n * m)))))))"
proof (intro conjI impI)
  show "cnt_bandgap n m \<noteq> Inl ZeroDivisionError"
    by (rule cnt_bandgap_no_zero_division)
next
  assume "n = 0 \<and> m = 0"
  then show "cnt_bandgap n m = Inr (Np (Fin 0), Np PInf)"
    by (simp add: cnt_bandgap_origin)
next
  assume a: "(n \<noteq> 0 \<or> m \<noteq> 0) \<and> n\<^sup>2 + m\<^sup>2 + n * m < 2 ^ 64"
  then have "0 < real_of_int (n\<^sup>2 + m\<^sup>2 + n * m)"
    using cnt_quadratic_pos [of n m] by (simp only: of_int_0_less_iff)
  then have "0 < sqrt (real_of_int (n\<^sup>2 + m\<^sup>2 + n * m))"
    by (simp only: real_sqrt_gt_0_iff)
  then show "0 < 0.0783 * sqrt (real_of_int (n\<^sup>2 + m\<^sup>2 + n * m))"
    by simp
next
  assume a: "(n \<noteq> 0 \<or> m \<noteq> 0) \<and> n\<^sup>2 + m\<^sup>2 + n * m < 2 ^ 64"
  then show "cnt_bandgap n m =
            Inr (Np (Fin (0.0783 * sqrt (real_of_int (n\<^sup>2 + m\<^sup>2 + n * m)))),
                 Np (Fin (0.82 / (0.0783 * sqrt (real_of_int (n\<^sup>2 + m\<^sup>2 + n * m))))))"
    by (simp only: cnt_bandgap_accepted)
qed

text \<open>
  Both cases: the origin, and the zigzag tube \<open>(10, 0)\<close> of diameter 0.783 nm.
\<close>

theorem cnt_bandgap_division_witness:
  "((0::int) = 0 \<and> (0::int) = 0) \<and> cnt_bandgap 0 0 = Inr (Np (Fin 0), Np PInf)
   \<and> (10::int) \<noteq> 0 \<and> (10::int)\<^sup>2 + 0\<^sup>2 + 10 * 0 < 2 ^ 64
   \<and> cnt_bandgap 10 0 = Inr (Np (Fin 0.783), Np (Fin (0.82 / 0.783)))"
proof -
  have origin: "cnt_bandgap 0 0 = Inr (Np (Fin 0), Np PInf)"
    using cnt_bandgap_division [of 0 0] by simp
  have small: "(10::int)\<^sup>2 + 0\<^sup>2 + 10 * 0 < 2 ^ 64"
    by simp
  have "sqrt (real_of_int (10\<^sup>2 + 0\<^sup>2 + 10 * 0)) = 10"
    using real_sqrt_abs [of 10] by simp
  then have "cnt_bandgap 10 0 = Inr (Np (Fin 0.783), Np (Fin (0.82 / 0.783)))"
    using cnt_bandgap_division [of 10 0] by simp
  with origin small show ?thesis
    by simp
qed

subsection \<open>The CNT classification\<close>

text \<open>
  C4. For all integers \<open>n\<close> and \<open>m\<close>, negative differences included, the nanotube is
  reported metallic exactly when \<open>(n - m) mod 3\<close> is 0 and semiconducting otherwise;
  the remainder that is compared with zero is never negative, and whenever \<open>n - m\<close>
  is negative and divisible by 3 the report is metallic.
\<close>

theorem cnt_classification_mod3:
  "(cnt_classification n m = Metallic) = ((n - m) mod 3 = 0)
   \<and> (cnt_classification n m = Semiconducting) = ((n - m) mod 3 \<noteq> 0)
   \<and> 0 \<le> \<bar>(n - m) mod 3\<bar> \<and> 0 \<le> (n - m) mod 3
   \<and> (n - m < 0 \<and> 3 dvd (n - m) \<longrightarrow> cnt_classification n m = Metallic)"
  by (auto simp add: cnt_classification_def mod_eq_0_iff_dvd)

theorem cnt_classification_mod3_witness:
  "(1::int) - 4 < 0 \<and> (3::int) dvd (1 - 4) \<and> cnt_classification 1 4 = Metallic"
  using cnt_classification_mod3 [of 1 4] by simp

subsection \<open>cnt\_bandgap: diameter and bandgap\<close>

text \<open>
  C5, as stated: for every pair of positive integers the call returns the diameter
  and the bandgap. At \<open>n = 2^32\<close>, \<open>m = 1\<close> the sum under the root is above \<open>2^64\<close>,
  \<open>np.sqrt\<close> cannot convert it and raises \<open>TypeError\<close>: nothing is returned.
\<close>

theorem cnt_bandgap_large_index:
  "cnt_bandgap (2 ^ 32) 1 = Inl TypeError"
  by (simp add: cnt_bandgap_def np_sqrt_int_def)

text \<open>
  C5, amended: for positive integers \<open>n\<close> and \<open>m\<close> with \<open>n^2 + m^2 + n * m < 2^64\<close>,
  \<open>cnt_bandgap n m\<close> is the diameter \<open>d = 0.0783 * sqrt (n^2 + m^2 + n * m)\<close>
  together with the bandgap \<open>0.82 / d\<close>; for \<open>(10, 10)\<close> the diameter is 1.356 nm and
  the bandgap 0.605 eV, each to within half a unit of the third decimal.
\<close>

theorem cnt_bandgap_formula:
  "(0 < n \<and> 0 < m \<and> n\<^sup>2 + m\<^sup>2 + n * m < 2 ^ 64 \<longrightarrow>
      cnt_bandgap n m =
        Inr (Np (Fin (0.0783 * sqrt (real_of_int (n\<^sup>2 + m\<^sup>2 + n * m)))),
             Np (Fin (0.82 / (0.0783 * sqrt (real_of_int (n\<^sup>2 + m\<^sup>2 + n * m)))))))
   \<and> cnt_bandgap 10 10 = Inr (Np (Fin (0.0783 * sqrt 300)), Np (Fin (0.82 / (0.0783 * sqrt 300))))
   \<and> \<bar>0.0783 * sqrt 300 - 1.356\<bar> < 0.0005
   \<and> \<bar>0.82 / (0.0783 * sqrt 300) - 0.605\<bar> < 0.0005"
proof -
  have general: "0 < n \<and> 0 < m \<and> n\<^sup>2 + m\<^sup>2 + n * m < 2 ^ 64 \<longrightarrow>
      cnt_bandgap n m =
        Inr (Np (Fin (0.0783 * sqrt (real_of_int (n\<^sup>2 + m\<^sup>2 + n * m)))),
             Np (Fin (0.82 / (0.0783 * sqrt (real_of_int (n\<^sup>2 + m\<^sup>2 + n * m))))))"
  proof
    assume a: "0 < n \<and> 0 < m \<and> n\<^sup>2 + m\<^sup>2 + n * m < 2 ^ 64"
    then have "n \<noteq> 0 \<or> m \<noteq> 0" by simp
    with a show "cnt_bandgap n m =
        Inr (Np (Fin (0.0783 * sqrt (real_of_int (n\<^sup>2 + m\<^sup>2 + n * m)))),
             Np (Fin (0.82 / (0.0783 * sqrt (real_of_int (n\<^sup>2 + m\<^sup>2 + n * m))))))"
      by (simp only: cnt_bandgap_accepted)
  qed
  have armchair: "cnt_bandgap 10 10 =
      Inr (Np (Fin (0.0783 * sqrt 300)), Np (Fin (0.82 / (0.0783 * sqrt 300))))"
    using cnt_bandgap_accepted [of 10 10] by simp
  have diameter: "\<bar>0.0783 * sqrt 300 - 1.356\<bar> < 0.0005"
    using sqrt_300_bounds by (simp add: abs_less_iff)
  have gap: "\<bar>0.82 / (0.0783 * sqrt 300) - 0.605\<bar> < 0.0005"
    using sqrt_300_bounds by (simp add: abs_less_iff field_simps)
  from general armchair diameter gap show ?thesis
    by blast
qed

theorem cnt_bandgap_formula_witness:
  "(0::int) < 7 \<and> (0::int) < 8 \<and> (7::int)\<^sup>2 + 8\<^sup>2 + 7 * 8 < 2 ^ 64
   \<and> cnt_bandgap 7 8 = Inr (Np (Fin (0.0783 * 13)), Np (Fin (0.82 / (0.0783 * 13))))"
proof -
  have "real_of_int (7\<^sup>2 + 8\<^sup>2 + 7 * 8) = 13\<^sup>2"
    by simp
  then have "sqrt (real_of_int (7\<^sup>2 + 8\<^sup>2 + 7 * 8)) = 13"
    by (simp only: real_sqrt_abs abs_numeral)
  then show ?thesis
    using cnt_bandgap_formula [of 7 8] by simp
qed

subsection \<open>dg\_threshold: helper facts\<close>

lemma exp_overflows:
  assumes "2000 \<le> (x::real)"
  shows "\<not> in_range (exp x)"
proof -
  have "(2::real) \<le> exp 1"
    using exp_ge_add_one_self [of "1::real"] by simp
  then have "(2::real) ^ 2000 \<le> exp 1 ^ 2000"
    by (intro power_mono) simp_all
  also have "exp (1::real) ^ 2000 = exp 2000"
    using exp_of_nat_mult [of 2000 "1::real"] by simp
  also have "exp 2000 \<le> exp x"
    using assms by simp
  finally have "(2::real) ^ 2000 \<le> exp x" .
  moreover have "(2::real) ^ 1024 - 2 ^ 970 \<le> 2 ^ 2000"
    by simp
  ultimately have "(2::real) ^ 1024 - 2 ^ 970 \<le> exp x"
    by (rule order_trans [rotated])
  then show ?thesis
    by (simp add: in_range_def)
qed

lemma in_range_small: "\<bar>x\<bar> \<le> 10 ^ 300 \<Longrightarrow> in_range x"
proof -
  assume "\<bar>x\<bar> \<le> 10 ^ 300"
  moreover have "(10::real) ^ 300 < 2 ^ 1024 - 2 ^ 970"
    by simp
  ultimately have "\<bar>x\<bar> < 2 ^ 1024 - 2 ^ 970"
    by (rule le_less_trans)
  then show ?thesis
    by (simp only: in_range_def)
qed

lemma in_range_exp_nonpos:
  assumes "x \<le> (0::real)"
  shows "in_range (exp x)"
proof (rule in_range_small)
  have "exp x \<le> 1"
    using assms by simp
  also have "(1::real) \<le> 10 ^ 300"
    by simp
  finally show "\<bar>exp x\<bar> \<le> 10 ^ 300"
    by simp
qed

lemma dg_threshold_val:
  "result_val (dg_threshold thickness tox) =
     Inr (f_add (f_add (Fin 0.2) (f_mul (Fin 0.5)
                   (f_exp (f_div (f_neg (val thickness)) (Fin (5 / 10 ^ 9))))))
                (f_mul (f_mul (val tox) (Fin (10 ^ 9))) (Fin 0.01)))"
  by (simp add: dg_threshold_def n_div_def n_neg_def n_add_def n_mul_def np_exp_def mk_def)

lemma dg_threshold_numpy: "\<exists>r. dg_threshold thickness tox = Inr (Np r)"
  by (simp add: dg_threshold_def n_div_def n_neg_def n_add_def n_mul_def np_exp_def mk_def)

lemma dg_threshold_finite:
  assumes "val thickness = Fin t" and "val tox = Fin x"
    and "in_range (- t / (5 / 10 ^ 9))" and "in_range (exp (- t / (5 / 10 ^ 9)))"
    and "in_range (x * 10 ^ 9)"
    and "in_range (0.2 + 0.5 * exp (- t / (5 / 10 ^ 9)) + (x * 10 ^ 9) * 0.01)"
  shows "result_val (dg_threshold thickness tox) =
           Inr (Fin (0.2 + 0.5 * exp (- t / (5 / 10 ^ 9)) + (x * 10 ^ 9) * 0.01))"
proof -
  define Q where "Q = - t / (5 / 10 ^ 9)"
  define E where "E = exp Q"
  define T where "T = x * 10 ^ 9"
  have e: "in_range E" and "0 < E"
    using assms(4) by (simp_all add: E_def Q_def)
  have half: "in_range (0.5 * E)"
    using in_range_half [OF e] by simp
  have first: "in_range (0.2 + 0.5 * E)"
    using e \<open>0 < E\<close> by (simp add: in_range_def)
  have t: "in_range T"
    using assms(5) by (simp only: T_def)
  have second: "in_range (T * 0.01)"
    using t by (simp add: in_range_def abs_mult)
  have total: "in_range (0.2 + 0.5 * E + T * 0.01)"
    using assms(6) by (simp only: E_def T_def Q_def)
  have q: "f_div (f_neg (Fin t)) (Fin (5 / 10 ^ 9)) = Fin Q"
    using assms(3) by (simp add: to_f64_in_range Q_def)
  have ex: "f_exp (Fin Q) = Fin E"
    using e by (simp only: f_exp.simps to_f64_in_range E_def)
  have m1: "f_mul (Fin 0.5) (Fin E) = Fin (0.5 * E)"
    by (simp only: f_mul.simps to_f64_in_range [OF half])
  have a1: "f_add (Fin 0.2) (Fin (0.5 * E)) = Fin (0.2 + 0.5 * E)"
    by (simp only: f_add.simps to_f64_in_range [OF first])
  have m2: "f_mul (Fin x) (Fin (10 ^ 9)) = Fin T"
    using t by (simp only: f_mul.simps to_f64_in_range T_def)
  have m3: "f_mul (Fin T) (Fin 0.01) = Fin (T * 0.01)"
    by (simp only: f_mul.simps to_f64_in_range [OF second])
  have a2: "f_add (Fin (0.2 + 0.5 * E)) (Fin (T * 0.01)) = Fin (0.2 + 0.5 * E + T * 0.01)"
    by (simp only: f_add.simps to_f64_in_range [OF total])
  have "result_val (dg_threshold thickness tox) = Inr (Fin (0.2 + 0.5 * E + T * 0.01))"
    by (simp only: dg_threshold_val assms(1,2) q ex m1 a1 m2 m3 a2)
  then show ?thesis
    by (simp only: E_def T_def Q_def)
qed

text \<open>The exponential term and the oxide term of a finite result.\<close>

lemma dg_threshold_parts:
  assumes "val thickness = Fin t" and "val tox = Fin x"
    and "result_val (dg_threshold thickness tox) = Inr (Fin v)"
  shows "\<exists>e. f_exp (to_f64 (- t / (5 / 10 ^ 9))) = Fin e
            \<and> in_range (x * 10 ^ 9) \<and> v = 0.2 + 0.5 * e + (x * 10 ^ 9) * 0.01"
proof -
  define E where "E = f_exp (to_f64 (- t / (5 / 10 ^ 9)))"
  define T where "T = f_mul (f_mul (Fin x) (Fin (10 ^ 9))) (Fin 0.01)"
  have v: "f_add (f_add (Fin 0.2) (f_mul (Fin 0.5) E)) T = Fin v"
    using assms by (simp add: dg_threshold_val E_def T_def)
  have E_cases: "E = PInf \<or> (\<exists>e. E = Fin e \<and> 0 \<le> e)"
    by (auto simp add: E_def to_f64_def)
  have T_cases: "T = PInf \<or> T = NInf \<or> (in_range (x * 10 ^ 9) \<and> T = to_f64 (x * 10 ^ 9 * 0.01))"
    by (auto simp add: T_def to_f64_def)
  from E_cases show ?thesis
  proof
    assume "E = PInf"
    then have "f_add (f_add (Fin 0.2) (f_mul (Fin 0.5) E)) T \<noteq> Fin v"
      by (cases T) simp_all
    with v show ?thesis by simp
  next
    assume "\<exists>e. E = Fin e \<and> 0 \<le> e"
    then obtain e where e: "E = Fin e" "0 \<le> e" by blast
    define A where "A = f_add (Fin 0.2) (f_mul (Fin 0.5) E)"
    have A_cases: "A = PInf \<or> A = NInf \<or> A = Fin (0.2 + 0.5 * e)"
      by (auto simp add: A_def e to_f64_def)
    have A: "A = Fin (0.2 + 0.5 * e)"
    proof (rule ccontr)
      assume "A \<noteq> Fin (0.2 + 0.5 * e)"
      with A_cases have "A = PInf \<or> A = NInf" by blast
      then have "f_add A T \<noteq> Fin v"
        by (cases T) auto
      with v show False by (simp add: A_def)
    qed
    have T: "in_range (x * 10 ^ 9) \<and> T = to_f64 (x * 10 ^ 9 * 0.01)"
    proof (rule ccontr)
      assume "\<not> (in_range (x * 10 ^ 9) \<and> T = to_f64 (x * 10 ^ 9 * 0.01))"
      with T_cases have "T = PInf \<or> T = NInf" by blast
      then have "f_add A T \<noteq> Fin v"
        unfolding A by auto
      with v show False by (simp add: A_def)
    qed
    have "in_range (x * 10 ^ 9 * 0.01)"
      using T by (simp add: in_range_def abs_mult)
    with T have T': "T = Fin (x * 10 ^ 9 * 0.01)"
      by (simp add: to_f64_in_range)
    have "f_add A T = to_f64 (0.2 + 0.5 * e + x * 10 ^ 9 * 0.01)"
      unfolding A T' by simp
    with v have "to_f64 (0.2 + 0.5 * e + x * 10 ^ 9 * 0.01) = Fin v"
      by (simp add: A_def)
    then have "v = 0.2 + 0.5 * e + x * 10 ^ 9 * 0.01"
      by (simp add: to_f64_def split: if_splits)
    with e T show ?thesis
      by (simp add: E_def)
  qed
qed

lemma exp_term_antimono:
  assumes "t1 \<le> (t2::real)"
    and "f_exp (to_f64 (- t1 / (5 / 10 ^ 9))) = Fin e1"
    and "f_exp (to_f64 (- t2 / (5 / 10 ^ 9))) = Fin e2"
  shows "e2 \<le> e1"
proof -
  define q1 where "q1 = - t1 / (5 / 10 ^ 9)"
  define q2 where "q2 = - t2 / (5 / 10 ^ 9)"
  have q: "q2 \<le> q1"
    using assms(1) by (simp add: q1_def q2_def divide_right_mono)
  have e1: "f_exp (to_f64 q1) = Fin e1" and e2: "f_exp (to_f64 q2) = Fin e2"
    using assms(2,3) by (simp_all add: q1_def q2_def)
  have pos1: "0 \<le> e1"
    using e1 by (auto simp add: to_f64_def split: if_splits)
  show ?thesis
  proof (cases "in_range q2")
    case True
    then have v2: "e2 = exp q2"
      using e2 by (auto simp add: to_f64_def split: if_splits)
    show ?thesis
    proof (cases "in_range q1")
      case True
      then have "e1 = exp q1"
        using e1 by (auto simp add: to_f64_def split: if_splits)
      with v2 q show ?thesis by simp
    next
      case False
      with q \<open>in_range q2\<close> have "0 < q1"
        by (simp add: in_range_def)
      with False e1 show ?thesis
        by (simp add: to_f64_def)
    qed
  next
    case False
    show ?thesis
    proof (cases "0 < q2")
      case True
      with False e2 show ?thesis
        by (simp add: to_f64_def)
    next
      case False
      with \<open>\<not> in_range q2\<close> e2 have "e2 = 0"
        by (simp add: to_f64_def)
      with pos1 show ?thesis by simp
    qed
  qed
qed

subsection \<open>dg\_threshold: the formula\<close>

text \<open>
  C6, as stated: for every thickness the result is the number
  \<open>0.2 + 0.5 * exp (- thickness / 5e-9) + (tox * 1e9) * 0.01\<close>. At
  \<open>thickness = -1e-5\<close> and \<open>tox = 0\<close> that number is \<open>0.2 + 0.5 * exp 2000\<close>, but
  \<open>np.exp\<close> overflows and the call returns positive infinity.
\<close>

theorem dg_threshold_exp_overflow:
  "dg_threshold (Py (Fin (- (1 / 10 ^ 5)))) (Py (Fin 0)) = Inr (Np PInf)"
proof -
  have "\<not> in_range (exp (2000::real))"
    by (rule exp_overflows) simp
  then show ?thesis
    by (simp add: dg_threshold_def n_div_def n_neg_def n_add_def n_mul_def np_exp_def mk_def
        to_f64_def in_range_def)
qed

text \<open>
  C6, amended: \<open>dg_threshold\<close> never raises and always returns a numpy float64; for
  a thickness and a \<open>tox \<ge> 0\<close>, in metres, for which \<open>- thickness / 5e-9\<close>, its
  exponential, \<open>tox * 1e9\<close> and the sum stay within the binary64 range, the result
  is \<open>0.2 + 0.5 * exp (- thickness / 5e-9) + (tox * 1e9) * 0.01\<close>. (With a
  negative \<open>tox\<close> the two terms can cancel, and the rounding of the code, which
  the model leaves out, is then no longer small against the result.)
\<close>

theorem dg_threshold_formula:
  assumes "val thickness = Fin t" and "val tox = Fin x"
  shows "(\<exists>r. dg_threshold thickness tox = Inr (Np r))
       \<and> (0 \<le> x \<and> list_all in_range
            [- t / (5 / 10 ^ 9), exp (- t / (5 / 10 ^ 9)), x * 10 ^ 9,
             0.2 + 0.5 * exp (- t / (5 / 10 ^ 9)) + (x * 10 ^ 9) * 0.01] \<longrightarrow>
          dg_threshold thickness tox =
            Inr (Np (Fin (0.2 + 0.5 * exp (- t / (5 / 10 ^ 9)) + (x * 10 ^ 9) * 0.01))))"
proof (intro conjI impI)
  show "\<exists>r. dg_threshold thickness tox = Inr (Np r)"
    by (rule dg_threshold_numpy)
next
  assume a: "0 \<le> x \<and> list_all in_range
            [- t / (5 / 10 ^ 9), exp (- t / (5 / 10 ^ 9)), x * 10 ^ 9,
             0.2 + 0.5 * exp (- t / (5 / 10 ^ 9)) + (x * 10 ^ 9) * 0.01]"
  obtain r where r: "dg_threshold thickness tox = Inr (Np r)"
    using dg_threshold_numpy by blast
  have "result_val (dg_threshold thickness tox) =
           Inr (Fin (0.2 + 0.5 * exp (- t / (5 / 10 ^ 9)) + (x * 10 ^ 9) * 0.01))"
    by (rule dg_threshold_finite [OF assms]) (use a in simp_all)
  with r show "dg_threshold thickness tox =
            Inr (Np (Fin (0.2 + 0.5 * exp (- t / (5 / 10 ^ 9)) + (x * 10 ^ 9) * 0.01)))"
    by simp
qed

text \<open>The page's defaults, 10 nm of silicon and 1 nm of oxide.\<close>

theorem dg_threshold_formula_witness:
  "(0::real) \<le> 1 / 10 ^ 9
   \<and> dg_threshold (Py (Fin (10 / 10 ^ 9))) (Py (Fin (1 / 10 ^ 9)))
     = Inr (Np (Fin (0.2 + 0.5 * exp (- 2) + 0.01)))"
proof -
  define E where "E = exp (- 2 :: real)"
  have e: "E \<le> 1" and e0: "0 < E"
    by (simp_all add: E_def)
  have r1: "in_range (- (10 / 10 ^ 9) / (5 / 10 ^ 9))"
    by (rule in_range_small) simp
  have r2: "in_range (exp (- (10 / 10 ^ 9) / (5 / 10 ^ 9)))"
    by (rule in_range_exp_nonpos) simp
  have r3: "in_range (1 / 10 ^ 9 * 10 ^ 9)"
    by (rule in_range_small) simp
  have "\<bar>0.2 + 0.5 * E + 0.01\<bar> \<le> (10::real) ^ 300"
    using e e0 by (auto simp add: abs_le_iff)
  then have "in_range (0.2 + 0.5 * E + 0.01)"
    by (rule in_range_small)
  then have "in_range (0.2 + 0.5 * exp (- 2) + 0.01)"
    by (simp only: E_def)
  then have r4: "in_range (0.2 + 0.5 * exp (- (10 / 10 ^ 9) / (5 / 10 ^ 9))
      + (1 / 10 ^ 9 * 10 ^ 9) * 0.01)"
    by simp
  show ?thesis
    using dg_threshold_formula [of "Py (Fin (10 / 10 ^ 9))" "10 / 10 ^ 9"
        "Py (Fin (1 / 10 ^ 9))" "1 / 10 ^ 9"] r1 r2 r3 r4
    by simp
qed

subsection \<open>dg\_threshold: monotonicity\<close>

lemma dg_threshold_thin:
  assumes "2000 \<le> - t / (5 / 10 ^ 9)" and "\<bar>t\<bar> \<le> 1"
  shows "dg_threshold (Py (Fin t)) (Py (Fin 0)) = Inr (Np PInf)"
proof -
  define Q where "Q = - t / (5 / 10 ^ 9)"
  have "\<bar>Q\<bar> \<le> 10 ^ 300"
    using assms(2) by (simp add: Q_def)
  then have "in_range Q"
    by (rule in_range_small)
  then have q: "f_div (f_neg (Fin t)) (Fin (5 / 10 ^ 9)) = Fin Q"
    by (simp add: to_f64_in_range Q_def)
  have "\<not> in_range (exp Q)"
    using assms(1) unfolding Q_def by (rule exp_overflows)
  then have ex: "f_exp (Fin Q) = PInf"
    by (simp add: to_f64_def)
  have "result_val (dg_threshold (Py (Fin t)) (Py (Fin 0))) = Inr PInf"
    unfolding dg_threshold_val val.simps q ex
    by (simp add: to_f64_def in_range_def)
  moreover obtain r where "dg_threshold (Py (Fin t)) (Py (Fin 0)) = Inr (Np r)"
    using dg_threshold_numpy by blast
  ultimately show ?thesis
    by simp
qed

lemma dg_threshold_thick_oxide:
  assumes "10 ^ 300 \<le> x"
  shows "dg_threshold (Py (Fin 0)) (Py (Fin x)) = Inr (Np PInf)"
proof -
  have "(2::real) ^ 1024 - 2 ^ 970 \<le> 10 ^ 300 * 10 ^ 9"
    by simp
  also have "(10::real) ^ 300 * 10 ^ 9 \<le> x * 10 ^ 9"
    using assms by simp
  finally have big: "(2::real) ^ 1024 - 2 ^ 970 \<le> x * 10 ^ 9" .
  then have "\<not> in_range (x * 10 ^ 9)"
    using assms by (simp add: in_range_def)
  moreover have "0 < x * 10 ^ 9"
    using assms by simp
  ultimately have m: "f_mul (Fin x) (Fin (10 ^ 9)) = PInf"
    by (simp only: f_mul.simps to_f64_def if_True if_False)
  have "result_val (dg_threshold (Py (Fin 0)) (Py (Fin x))) = Inr PInf"
    unfolding dg_threshold_val val.simps m
    by (simp add: to_f64_def in_range_def)
  moreover obtain r where "dg_threshold (Py (Fin 0)) (Py (Fin x)) = Inr (Np r)"
    using dg_threshold_numpy by blast
  ultimately show ?thesis
    by simp
qed

lemma dg_threshold_at:
  assumes "0 \<le> t" and "t \<le> 1" and "0 \<le> x" and "x \<le> 1"
  shows "result_val (dg_threshold (Py (Fin t)) (Py (Fin x))) =
           Inr (Fin (0.2 + 0.5 * exp (- t / (5 / 10 ^ 9)) + (x * 10 ^ 9) * 0.01))"
proof (rule dg_threshold_finite)
  show "val (Py (Fin t)) = Fin t" and "val (Py (Fin x)) = Fin x"
    by simp_all
  show "in_range (- t / (5 / 10 ^ 9))"
    using assms by (intro in_range_small) simp
  show "in_range (exp (- t / (5 / 10 ^ 9)))"
    using assms by (intro in_range_exp_nonpos) simp
  show "in_range (x * 10 ^ 9)"
    using assms by (intro in_range_small) simp
  define E where "E = exp (- t / (5 / 10 ^ 9))"
  have "E \<le> 1" and "0 < E"
    using assms by (simp_all add: E_def)
  then have "\<bar>0.2 + 0.5 * E + (x * 10 ^ 9) * 0.01\<bar> \<le> 10 ^ 300"
    using assms by (auto simp add: abs_le_iff)
  then show "in_range (0.2 + 0.5 * exp (- t / (5 / 10 ^ 9)) + (x * 10 ^ 9) * 0.01)"
    unfolding E_def by (rule in_range_small)
qed

text \<open>
  C7, as stated: \<open>dg_threshold\<close> is strictly decreasing in the thickness and
  strictly increasing in \<open>tox\<close>, for every thickness and every \<open>tox\<close>. Where
  \<open>np.exp\<close> overflows, at the thicknesses \<open>-2e-5 < -1e-5\<close>, both results are
  positive infinity; where \<open>tox * 1e9\<close> overflows, at \<open>1e300 < 1e301\<close>, both are
  positive infinity too. Neither pair is strictly ordered.
\<close>

theorem dg_threshold_ties:
  "(- (2 / 10 ^ 5) :: real) < - (1 / 10 ^ 5)
   \<and> dg_threshold (Py (Fin (- (2 / 10 ^ 5)))) (Py (Fin 0)) = Inr (Np PInf)
   \<and> dg_threshold (Py (Fin (- (1 / 10 ^ 5)))) (Py (Fin 0)) = Inr (Np PInf)
   \<and> (10 ^ 300 :: real) < 10 ^ 301
   \<and> dg_threshold (Py (Fin 0)) (Py (Fin (10 ^ 300))) = Inr (Np PInf)
   \<and> dg_threshold (Py (Fin 0)) (Py (Fin (10 ^ 301))) = Inr (Np PInf)"
proof -
  have "dg_threshold (Py (Fin (- (2 / 10 ^ 5)))) (Py (Fin 0)) = Inr (Np PInf)"
    by (rule dg_threshold_thin) simp_all
  moreover have "dg_threshold (Py (Fin (- (1 / 10 ^ 5)))) (Py (Fin 0)) = Inr (Np PInf)"
    by (rule dg_threshold_thin) simp_all
  moreover have "dg_threshold (Py (Fin 0)) (Py (Fin (10 ^ 300))) = Inr (Np PInf)"
    by (rule dg_threshold_thick_oxide) simp
  moreover have "dg_threshold (Py (Fin 0)) (Py (Fin (10 ^ 301))) = Inr (Np PInf)"
    by (rule dg_threshold_thick_oxide) simp
  ultimately show ?thesis
    by simp
qed

text \<open>
  C7, amended: \<open>dg_threshold\<close> is monotone in the weak sense, which is the order
  that rounding preserves (the code rounds, and returns equal values for close
  arguments whose exact results differ). With \<open>tox\<close> fixed and
  \<open>thickness1 < thickness2\<close>, two finite results satisfy
  \<open>dg_threshold thickness2 tox \<le> dg_threshold thickness1 tox\<close>; with the thickness
  fixed and \<open>tox1 < tox2\<close>, two finite results satisfy
  \<open>dg_threshold thickness tox1 \<le> dg_threshold thickness tox2\<close>.
\<close>

theorem dg_threshold_monotone:
  "(val a1 = Fin t1 \<and> val a2 = Fin t2 \<and> val x = Fin b \<and> t1 < t2
      \<and> result_val (dg_threshold a1 x) = Inr (Fin v1)
      \<and> result_val (dg_threshold a2 x) = Inr (Fin v2) \<longrightarrow> v2 \<le> v1)
   \<and> (val a = Fin t \<and> val x1 = Fin b1 \<and> val x2 = Fin b2 \<and> b1 < b2
      \<and> result_val (dg_threshold a x1) = Inr (Fin w1)
      \<and> result_val (dg_threshold a x2) = Inr (Fin w2) \<longrightarrow> w1 \<le> w2)"
proof (intro conjI impI)
  assume h: "val a1 = Fin t1 \<and> val a2 = Fin t2 \<and> val x = Fin b \<and> t1 < t2
      \<and> result_val (dg_threshold a1 x) = Inr (Fin v1)
      \<and> result_val (dg_threshold a2 x) = Inr (Fin v2)"
  obtain e1 where e1: "f_exp (to_f64 (- t1 / (5 / 10 ^ 9))) = Fin e1"
      "v1 = 0.2 + 0.5 * e1 + (b * 10 ^ 9) * 0.01"
    using dg_threshold_parts [of a1 t1 x b v1] h by blast
  obtain e2 where e2: "f_exp (to_f64 (- t2 / (5 / 10 ^ 9))) = Fin e2"
      "v2 = 0.2 + 0.5 * e2 + (b * 10 ^ 9) * 0.01"
    using dg_threshold_parts [of a2 t2 x b v2] h by blast
  have "e2 \<le> e1"
    using exp_term_antimono [of t1 t2 e1 e2] h e1(1) e2(1) by simp
  then show "v2 \<le> v1"
    by (simp add: e1(2) e2(2))
next
  assume h: "val a = Fin t \<and> val x1 = Fin b1 \<and> val x2 = Fin b2 \<and> b1 < b2
      \<and> result_val (dg_threshold a x1) = Inr (Fin w1)
      \<and> result_val (dg_threshold a x2) = Inr (Fin w2)"
  obtain e1 where e1: "f_exp (to_f64 (- t / (5 / 10 ^ 9))) = Fin e1"
      "w1 = 0.2 + 0.5 * e1 + (b1 * 10 ^ 9) * 0.01"
    using dg_threshold_parts [of a t x1 b1 w1] h by blast
  obtain e2 where e2: "f_exp (to_f64 (- t / (5 / 10 ^ 9))) = Fin e2"
      "w2 = 0.2 + 0.5 * e2 + (b2 * 10 ^ 9) * 0.01"
    using dg_threshold_parts [of a t x2 b2 w2] h by blast
  have "e1 = e2"
    using e1(1) e2(1) by simp
  then show "w1 \<le> w2"
    using h by (simp add: e1(2) e2(2))
qed

text \<open>
  The ends of the two sliders: 2 nm against 20 nm of silicon at \<open>tox\<close> = 1 nm, and
  0.5 nm against 5 nm of oxide at a thickness of 10 nm.
\<close>

theorem dg_threshold_monotone_witness:
  "(2 / 10 ^ 9 :: real) < 20 / 10 ^ 9
   \<and> result_val (dg_threshold (Py (Fin (2 / 10 ^ 9))) (Py (Fin (1 / 10 ^ 9)))) =
       Inr (Fin (0.2 + 0.5 * exp (- (2 / 10 ^ 9) / (5 / 10 ^ 9)) + (1 / 10 ^ 9 * 10 ^ 9) * 0.01))
   \<and> result_val (dg_threshold (Py (Fin (20 / 10 ^ 9))) (Py (Fin (1 / 10 ^ 9)))) =
       Inr (Fin (0.2 + 0.5 * exp (- (20 / 10 ^ 9) / (5 / 10 ^ 9)) + (1 / 10 ^ 9 * 10 ^ 9) * 0.01))
   \<and> 0.2 + 0.5 * exp (- (20 / 10 ^ 9) / (5 / 10 ^ 9)) + (1 / 10 ^ 9 * 10 ^ 9) * 0.01
       \<le> 0.2 + 0.5 * exp (- (2 / 10 ^ 9) / (5 / 10 ^ 9)) + (1 / 10 ^ 9 * 10 ^ 9) * (0.01 :: real)
   \<and> (0.5 / 10 ^ 9 :: real) < 5 / 10 ^ 9
   \<and> result_val (dg_threshold (Py (Fin (10 / 10 ^ 9))) (Py (Fin (0.5 / 10 ^ 9)))) =
       Inr (Fin (0.2 + 0.5 * exp (- (10 / 10 ^ 9) / (5 / 10 ^ 9)) + (0.5 / 10 ^ 9 * 10 ^ 9) * 0.01))
   \<and> result_val (dg_threshold (Py (Fin (10 / 10 ^ 9))) (Py (Fin (5 / 10 ^ 9)))) =
       Inr (Fin (0.2 + 0.5 * exp (- (10 / 10 ^ 9) / (5 / 10 ^ 9)) + (5 / 10 ^ 9 * 10 ^ 9) * 0.01))
   \<and> 0.2 + 0.5 * exp (- (10 / 10 ^ 9) / (5 / 10 ^ 9)) + (0.5 / 10 ^ 9 * 10 ^ 9) * 0.01
       \<le> 0.2 + 0.5 * exp (- (10 / 10 ^ 9) / (5 / 10 ^ 9)) + (5 / 10 ^ 9 * 10 ^ 9) * (0.01 :: real)"
proof -
  have thick: "(2 / 10 ^ 9 :: real) < 20 / 10 ^ 9" by simp
  have oxide: "(0.5 / 10 ^ 9 :: real) < 5 / 10 ^ 9" by simp
  have r1: "result_val (dg_threshold (Py (Fin (2 / 10 ^ 9))) (Py (Fin (1 / 10 ^ 9)))) =
       Inr (Fin (0.2 + 0.5 * exp (- (2 / 10 ^ 9) / (5 / 10 ^ 9)) + (1 / 10 ^ 9 * 10 ^ 9) * 0.01))"
    by (rule dg_threshold_at) simp_all
  have r2: "result_val (dg_threshold (Py (Fin (20 / 10 ^ 9))) (Py (Fin (1 / 10 ^ 9)))) =
       Inr (Fin (0.2 + 0.5 * exp (- (20 / 10 ^ 9) / (5 / 10 ^ 9)) + (1 / 10 ^ 9 * 10 ^ 9) * 0.01))"
    by (rule dg_threshold_at) simp_all
  have r3: "result_val (dg_threshold (Py (Fin (10 / 10 ^ 9))) (Py (Fin (0.5 / 10 ^ 9)))) =
       Inr (Fin (0.2 + 0.5 * exp (- (10 / 10 ^ 9) / (5 / 10 ^ 9)) + (0.5 / 10 ^ 9 * 10 ^ 9) * 0.01))"
    by (rule dg_threshold_at) simp_all
  have r4: "result_val (dg_threshold (Py (Fin (10 / 10 ^ 9))) (Py (Fin (5 / 10 ^ 9)))) =
       Inr (Fin (0.2 + 0.5 * exp (- (10 / 10 ^ 9) / (5 / 10 ^ 9)) + (5 / 10 ^ 9 * 10 ^ 9) * 0.01))"
    by (rule dg_threshold_at) simp_all
  note th = dg_threshold_monotone
  have m1: "0.2 + 0.5 * exp (- (20 / 10 ^ 9) / (5 / 10 ^ 9)) + (1 / 10 ^ 9 * 10 ^ 9) * 0.01
       \<le> 0.2 + 0.5 * exp (- (2 / 10 ^ 9) / (5 / 10 ^ 9)) + (1 / 10 ^ 9 * 10 ^ 9) * (0.01 :: real)"
    using th [THEN conjunct1, of "Py (Fin (2 / 10 ^ 9))" "2 / 10 ^ 9"
        "Py (Fin (20 / 10 ^ 9))" "20 / 10 ^ 9" "Py (Fin (1 / 10 ^ 9))" "1 / 10 ^ 9"]
      thick r1 r2
    by (simp only: val.simps simp_thms)
  have m2: "0.2 + 0.5 * exp (- (10 / 10 ^ 9) / (5 / 10 ^ 9)) + (0.5 / 10 ^ 9 * 10 ^ 9) * 0.01
       \<le> 0.2 + 0.5 * exp (- (10 / 10 ^ 9) / (5 / 10 ^ 9)) + (5 / 10 ^ 9 * 10 ^ 9) * (0.01 :: real)"
    using th [THEN conjunct2, of "Py (Fin (10 / 10 ^ 9))" "10 / 10 ^ 9"
        "Py (Fin (0.5 / 10 ^ 9))" "0.5 / 10 ^ 9" "Py (Fin (5 / 10 ^ 9))" "5 / 10 ^ 9"]
      oxide r3 r4
    by (simp only: val.simps simp_thms)
  from thick oxide r1 r2 r3 r4 m1 m2 show ?thesis
    by blast
qed

subsection \<open>mobility\_degradation\<close>

lemma mobility_degradation_val:
  "result_val (mobility_degradation Efield mu0) =
     (if is_np Efield \<or> is_np mu0 then
        Inr (f_div (val mu0) (f_add (Fin 1) (f_div (val Efield) (Fin (10 ^ 6)))))
      else if f_add (Fin 1) (f_div (val Efield) (Fin (10 ^ 6))) = Fin 0 then
        Inl ZeroDivisionError
      else Inr (f_div (val mu0) (f_add (Fin 1) (f_div (val Efield) (Fin (10 ^ 6))))))"
  by (simp add: mobility_degradation_def n_div_def n_add_def mk_def)

lemma mobility_degradation_nonneg:
  assumes "val Efield = Fin e" and "val mu0 = Fin u"
    and "0 \<le> e" and "in_range e" and "in_range u"
  shows "result_val (mobility_degradation Efield mu0) = Inr (Fin (u / (1 + e / 10 ^ 6)))"
proof -
  define Q where "Q = e / 10 ^ 6"
  define D where "D = 1 + Q"
  have bound: "\<bar>e\<bar> < 2 ^ 1024 - 2 ^ 970"
    using assms(4) by (simp only: in_range_def)
  have q: "in_range Q"
    using bound assms(3) by (simp add: in_range_def Q_def)
  have den: "in_range D"
    using bound assms(3) by (simp add: in_range_def D_def Q_def)
  have one: "1 \<le> D"
    using assms(3) by (simp add: D_def Q_def)
  then have nz: "D \<noteq> 0"
    by simp
  have "\<bar>u / D\<bar> \<le> \<bar>u\<bar> / 1"
    unfolding abs_divide using one by (intro divide_left_mono) simp_all
  then have res: "in_range (u / D)"
    using assms(5) by (simp add: in_range_def)
  have d1: "f_div (Fin e) (Fin (10 ^ 6)) = Fin Q"
    using q by (simp add: to_f64_in_range Q_def)
  have a1: "f_add (Fin 1) (Fin Q) = Fin D"
    using den by (simp only: f_add.simps to_f64_in_range D_def)
  have d2: "f_div (Fin u) (Fin D) = Fin (u / D)"
    using nz res by (simp add: to_f64_in_range)
  have ne: "Fin D \<noteq> Fin 0"
    using nz by simp
  have "result_val (mobility_degradation Efield mu0) = Inr (Fin (u / D))"
    by (simp only: mobility_degradation_val assms(1,2) d1 a1 d2 ne if_False if_cancel)
  then show ?thesis
    by (simp only: D_def Q_def)
qed

text \<open>
  C8, as stated: for every \<open>Efield\<close> and \<open>mu0\<close> the result is
  \<open>mu0 / (1 + Efield / 1e6)\<close>. At \<open>Efield = -1e6\<close> the denominator is zero: for
  \<open>mu0 = 1\<close> numpy's division returns positive infinity, and the same call on two
  Python floats raises \<open>ZeroDivisionError\<close>. Neither is the value of the formula.
\<close>

theorem mobility_degradation_pole:
  "mobility_degradation (Np (Fin (- (10 ^ 6)))) (Py (Fin 1)) = Inr (Np PInf)
   \<and> mobility_degradation (Py (Fin (- (10 ^ 6)))) (Py (Fin 1)) = Inl ZeroDivisionError"
  by (simp add: mobility_degradation_def n_div_def n_add_def mk_def to_f64_def in_range_def)

text \<open>
  C8, amended: for every float \<open>mu0\<close> and every float \<open>Efield \<ge> 0\<close> the result is
  \<open>mu0 / (1 + Efield / 1e6)\<close>; in particular it is \<open>mu0\<close> at \<open>Efield = 0\<close> and
  \<open>mu0 / 2\<close> at \<open>Efield = 1e6\<close>. (Next to \<open>Efield = -1e6\<close> the sum
  \<open>1 + Efield / 1e6\<close> cancels, and the rounding of the code, which the model leaves
  out, is no longer small against the result; a field strength is not negative.)
\<close>

theorem mobility_degradation_formula:
  assumes "val Efield = Fin e" and "val mu0 = Fin u" and "in_range e" and "in_range u"
  shows "(0 \<le> e \<longrightarrow>
            result_val (mobility_degradation Efield mu0) = Inr (Fin (u / (1 + e / 10 ^ 6))))
       \<and> (e = 0 \<longrightarrow> result_val (mobility_degradation Efield mu0) = Inr (Fin u))
       \<and> (e = 10 ^ 6 \<longrightarrow> result_val (mobility_degradation Efield mu0) = Inr (Fin (u / 2)))"
proof (intro conjI impI)
  assume "0 \<le> e"
  then show "result_val (mobility_degradation Efield mu0) = Inr (Fin (u / (1 + e / 10 ^ 6)))"
    using assms by (simp add: mobility_degradation_nonneg)
next
  assume "e = 0"
  then show "result_val (mobility_degradation Efield mu0) = Inr (Fin u)"
    using mobility_degradation_nonneg [OF assms(1,2) _ assms(3,4)] by simp
next
  assume "e = 10 ^ 6"
  then show "result_val (mobility_degradation Efield mu0) = Inr (Fin (u / 2))"
    using mobility_degradation_nonneg [OF assms(1,2) _ assms(3,4)] by simp
qed

text \<open>
  The first sample of the page's sweep, \<open>Efield = 1e4\<close> as a numpy value, at the
  default mobility of 300 cm^2/Vs, and the two points of the claim.
\<close>

theorem mobility_degradation_formula_witness:
  "in_range (10 ^ 4) \<and> in_range 0.03 \<and> (0::real) \<le> 10 ^ 4
   \<and> result_val (mobility_degradation (Np (Fin (10 ^ 4))) (Py (Fin 0.03))) = Inr (Fin (3 / 101))
   \<and> in_range 0
   \<and> result_val (mobility_degradation (Np (Fin 0)) (Py (Fin 0.03))) = Inr (Fin 0.03)
   \<and> in_range (10 ^ 6)
   \<and> result_val (mobility_degradation (Np (Fin (10 ^ 6))) (Py (Fin 0.03))) = Inr (Fin (0.03 / 2))"
proof -
  have r1: "in_range (10 ^ 4)" and r2: "in_range 0.03" and r3: "in_range 0"
    and r4: "in_range (10 ^ 6)"
    by (simp_all add: in_range_def)
  have "result_val (mobility_degradation (Np (Fin (10 ^ 4))) (Py (Fin 0.03)))
          = Inr (Fin (0.03 / (1 + 10 ^ 4 / 10 ^ 6)))"
    using mobility_degradation_formula [of "Np (Fin (10 ^ 4))" "10 ^ 4" "Py (Fin 0.03)" "0.03"]
      r1 r2
    by simp
  then have a: "result_val (mobility_degradation (Np (Fin (10 ^ 4))) (Py (Fin 0.03)))
          = Inr (Fin (3 / 101))"
    by simp
  have b: "result_val (mobility_degradation (Np (Fin 0)) (Py (Fin 0.03))) = Inr (Fin 0.03)"
    using mobility_degradation_formula [of "Np (Fin 0)" 0 "Py (Fin 0.03)" "0.03"] r3 r2
    by simp
  have c: "result_val (mobility_degradation (Np (Fin (10 ^ 6))) (Py (Fin 0.03)))
          = Inr (Fin (0.03 / 2))"
    using mobility_degradation_formula [of "Np (Fin (10 ^ 6))" "10 ^ 6" "Py (Fin 0.03)" "0.03"]
      r4 r2
    by simp
  from r1 r2 r3 r4 a b c show ?thesis
    by simp
qed

subsection \<open>The radiation shift\<close>

text \<open>
  C9. The threshold shift is \<open>0.001 * dose\<close> and nothing else: it is zero at dose
  zero, additive in the dose, and exactly 0.05 V at 50 krad.
\<close>

theorem radiation_shift_linear:
  "radiation_shift dose = 0.001 * dose
   \<and> radiation_shift 0 = 0
   \<and> radiation_shift (dose + dose') = radiation_shift dose + radiation_shift dose'
   \<and> radiation_shift 50 = 0.05"
  by (simp add: radiation_shift_def algebra_simps)

end
